theory Spec2Isabelle
  imports Main
begin

section \<open>Python values, dictionaries and exceptions\<close>

text \<open>
  A job posting is a Python dict from field names to values. The values the scrapers and
  the filter handle are strings, integers and \<^verbatim>\<open>None\<close>. A dict is an
  association list read with \<open>map_of\<close> (the first binding of a key is the one seen);
  the empty dict is the empty list, which is what Python's \<^verbatim>\<open>not d\<close> tests.
\<close>

datatype pyval = PStr string | PInt int | PNone

type_synonym job = "(string \<times> pyval) list"

text \<open>
  The \<^verbatim>\<open>filters\<close> part of the configuration: each key holds a list of strings
  or a number.
\<close>

datatype cval = CList "string list" | CNum int

type_synonym filter_config = "(string \<times> cval) list"

text \<open>
  Exceptions are values. \<open>PyException\<close> stands for any exception raised by a collaborator
  (the browser driver, the language-model service, a scraping task), with its message.
\<close>

datatype error = KeyError string | TypeError | AttributeError | ValueError | PyException string

text \<open>\<^verbatim>\<open>d.get(key, default)\<close>\<close>

definition dict_get :: "filter_config \<Rightarrow> string \<Rightarrow> cval \<Rightarrow> cval" where
  "dict_get d k dflt = (case map_of d k of None \<Rightarrow> dflt | Some v \<Rightarrow> v)"

text \<open>Truth value of a configuration entry: a list is true when non-empty, a number when non-zero.\<close>

fun truthy :: "cval \<Rightarrow> bool" where
  "truthy (CList xs) = (xs \<noteq> [])"
| "truthy (CNum n) = (n \<noteq> 0)"

subsection \<open>Strings\<close>

text \<open>\<^verbatim>\<open>str.lower()\<close> on the ASCII letters (characters here are bytes).\<close>

definition lower_char :: "char \<Rightarrow> char" where
  "lower_char c =
     (case map_of (zip ''ABCDEFGHIJKLMNOPQRSTUVWXYZ'' ''abcdefghijklmnopqrstuvwxyz'') c of
        None \<Rightarrow> c
      | Some d \<Rightarrow> d)"

definition lower :: "string \<Rightarrow> string" where
  "lower s = map lower_char s"

fun starts_with :: "string \<Rightarrow> string \<Rightarrow> bool" where
  "starts_with [] ys = True"
| "starts_with (x # xs) [] = False"
| "starts_with (x # xs) (y # ys) = (x = y \<and> starts_with xs ys)"

text \<open>\<^verbatim>\<open>needle in hay\<close> for strings: \<open>needle\<close> occurs as a contiguous substring.\<close>

fun str_in :: "string \<Rightarrow> string \<Rightarrow> bool" where
  "str_in needle [] = (needle = [])"
| "str_in needle (h # hs) = (starts_with needle (h # hs) \<or> str_in needle hs)"

section \<open>filters.py\<close>

text \<open>
  \<^verbatim>\<open>any(x.lower() in job[key].lower() for x in xs)\<close>: the generator is consumed
  until the first true element. Each element evaluated reads \<^verbatim>\<open>job[key]\<close>
  (a missing key raises \<^verbatim>\<open>KeyError\<close>) and calls \<^verbatim>\<open>.lower()\<close> on it
  (a value that is not a string raises \<^verbatim>\<open>AttributeError\<close>). Over an empty
  \<open>xs\<close> nothing is evaluated and the result is \<^verbatim>\<open>False\<close>.
\<close>

fun any_lower_in :: "string list \<Rightarrow> job \<Rightarrow> string \<Rightarrow> error + bool" where
  "any_lower_in [] jb key = Inr False"
| "any_lower_in (x # xs) jb key =
     (case map_of jb key of
        None \<Rightarrow> Inl (KeyError key)
      | Some (PStr s) \<Rightarrow> if str_in (lower x) (lower s) then Inr True else any_lower_in xs jb key
      | Some (PInt n) \<Rightarrow> Inl AttributeError
      | Some PNone \<Rightarrow> Inl AttributeError)"

text \<open>Iterating over a configuration entry that is a number raises \<^verbatim>\<open>TypeError\<close>.\<close>

fun any_match :: "cval \<Rightarrow> job \<Rightarrow> string \<Rightarrow> error + bool" where
  "any_match (CList xs) jb key = any_lower_in xs jb key"
| "any_match (CNum n) jb key = Inl TypeError"

text \<open>Line 26: \<^verbatim>\<open>title_ok = any(t.lower() in job["title"].lower() for t in job_titles)\<close>\<close>

definition title_ok :: "cval \<Rightarrow> job \<Rightarrow> error + bool" where
  "title_ok job_titles jb = any_match job_titles jb ''title''"

text \<open>
  Lines 28-31: the bounds are compared only when the job has an \<^verbatim>\<open>experience\<close>
  that is not \<^verbatim>\<open>None\<close>. The chained comparison
  \<^verbatim>\<open>min_experience <= job["experience"] <= max_experience\<close> evaluates the
  second comparison only when the first holds; comparing a number with a string or a list
  raises \<^verbatim>\<open>TypeError\<close>.
\<close>

fun experience_ok :: "cval \<Rightarrow> cval \<Rightarrow> job \<Rightarrow> error + bool" where
  "experience_ok min_experience max_experience jb =
     (case map_of jb ''experience'' of
        None \<Rightarrow> Inr True
      | Some PNone \<Rightarrow> Inr True
      | Some (PStr s) \<Rightarrow> Inl TypeError
      | Some (PInt e) \<Rightarrow>
          (case min_experience of
             CList xs \<Rightarrow> Inl TypeError
           | CNum lo \<Rightarrow>
               if lo \<le> e then
                 (case max_experience of
                    CList ys \<Rightarrow> Inl TypeError
                  | CNum hi \<Rightarrow> Inr (e \<le> hi))
               else Inr False))"

text \<open>Lines 33-35 and 37-39: the guarded dimensions, \<^verbatim>\<open>if locations: ...\<close>.\<close>

definition guarded_ok :: "cval \<Rightarrow> job \<Rightarrow> string \<Rightarrow> error + bool" where
  "guarded_ok flt jb key = (if truthy flt then any_match flt jb key else Inr True)"

text \<open>
  One iteration of the loop body, lines 26-42: the four flags are computed one after the
  other (none is skipped when an earlier one is false), then the job is kept when all
  four hold.
\<close>

definition job_passes :: "cval \<Rightarrow> cval \<Rightarrow> cval \<Rightarrow> cval \<Rightarrow> cval \<Rightarrow> job \<Rightarrow> error + bool" where
  "job_passes job_titles min_experience max_experience locations job_type_filters jb =
     (case title_ok job_titles jb of
        Inl e \<Rightarrow> Inl e
      | Inr t \<Rightarrow>
     (case experience_ok min_experience max_experience jb of
        Inl e \<Rightarrow> Inl e
      | Inr x \<Rightarrow>
     (case guarded_ok locations jb ''location'' of
        Inl e \<Rightarrow> Inl e
      | Inr l \<Rightarrow>
     (case guarded_ok job_type_filters jb ''job_type'' of
        Inl e \<Rightarrow> Inl e
      | Inr j \<Rightarrow> Inr (t \<and> x \<and> l \<and> j)))))"

fun filter_loop :: "cval \<Rightarrow> cval \<Rightarrow> cval \<Rightarrow> cval \<Rightarrow> cval \<Rightarrow> job list \<Rightarrow> job list \<Rightarrow> error + job list" where
  "filter_loop ts lo hi ls jts [] filtered = Inr filtered"
| "filter_loop ts lo hi ls jts (jb # jobs) filtered =
     (case job_passes ts lo hi ls jts jb of
        Inl e \<Rightarrow> Inl e
      | Inr ok \<Rightarrow> filter_loop ts lo hi ls jts jobs (if ok then filtered @ [jb] else filtered))"

definition filter_jobs :: "job list \<Rightarrow> filter_config \<Rightarrow> error + job list" where
  "filter_jobs jobs filter_config =
     (if filter_config = [] then Inr jobs
      else
        let job_titles = dict_get filter_config ''job_titles'' (CList []);
            min_experience = dict_get filter_config ''min_experience_years'' (CNum 0);
            max_experience = dict_get filter_config ''max_experience_years'' (CNum 100);
            locations = dict_get filter_config ''locations'' (CList []);
            job_type_filters = dict_get filter_config ''job_type'' (CList [])
        in filter_loop job_titles min_experience max_experience locations job_type_filters jobs [])"

section \<open>site\_scraper.py: job records\<close>

text \<open>
  \<^verbatim>\<open>_extract_job_data(elem, company_url, source_url)\<close>. An element is given by
  the text \<^verbatim>\<open>elem.get_text(strip=True)\<close>; \<open>None\<close> is a missing element. The
  title is cut to 50 characters; an empty title gives no record.
\<close>

definition extract_job_data :: "string option \<Rightarrow> string \<Rightarrow> string \<Rightarrow> job option" where
  "extract_job_data elem company_url source_url =
     (let title = (case elem of None \<Rightarrow> None | Some text \<Rightarrow> Some (take 50 text)) in
      case title of
        None \<Rightarrow> None
      | Some t \<Rightarrow>
          if t \<noteq> [] then
            Some [(''company'', PStr company_url), (''title'', PStr t), (''url'', PStr source_url)]
          else None)"

section \<open>site\_scraper.py: the retrying fetch\<close>

text \<open>
  What \<^verbatim>\<open>requests.get\<close> gives back: a response, or a
  \<^verbatim>\<open>RequestException\<close> (timeout, connection error). Of a response the code reads
  the status code, the redirect history (empty when the request was not redirected), the
  final URL and the body (\<^verbatim>\<open>response.text\<close>, here \<open>body_text\<close>).
\<close>

record response =
  status_code :: int
  history :: "int list"
  url :: string
  body_text :: string

datatype outcome = RequestException | Resp response

text \<open>
  The network is an oracle: \<open>net k u\<close> is the outcome of the \<open>k\<close>-th GET issued
  (counting from 0) when it is sent to \<open>u\<close>. The effects of the fetcher are recorded in a
  trace of events.
\<close>

type_synonym net = "nat \<Rightarrow> string \<Rightarrow> outcome"

datatype event = Get string | Sleep nat

fun is_get :: "event \<Rightarrow> bool" where
  "is_get (Get u) = True"
| "is_get (Sleep d) = False"

definition count_gets :: "event list \<Rightarrow> nat" where
  "count_gets tr = length (filter is_get tr)"

fun sleeps :: "event list \<Rightarrow> nat list" where
  "sleeps [] = []"
| "sleeps (Get u # tr) = sleeps tr"
| "sleeps (Sleep d # tr) = d # sleeps tr"

definition requests_get :: "net \<Rightarrow> event list \<Rightarrow> string \<Rightarrow> event list \<times> outcome" where
  "requests_get nt tr u = (tr @ [Get u], nt (count_gets tr) u)"

definition time_sleep :: "event list \<Rightarrow> nat \<Rightarrow> event list" where
  "time_sleep tr d = tr @ [Sleep d]"

definition MAX_RETRIES :: nat where
  "MAX_RETRIES = 3"

text \<open>
  \<^verbatim>\<open>_get_with_retries\<close> of site\_scraper.py, lines 239-259. The loop runs over the
  attempt numbers \<^verbatim>\<open>range(MAX_RETRIES)\<close>. The second GET of a redirected response
  is inside the \<^verbatim>\<open>try\<close>: a \<^verbatim>\<open>RequestException\<close> from it is caught
  like one from the first GET. Its response is returned as it comes.
\<close>

fun get_with_retries_loop :: "net \<Rightarrow> string \<Rightarrow> nat list \<Rightarrow> event list \<Rightarrow> event list \<times> response option" where
  "get_with_retries_loop nt u [] tr = (tr, None)"
| "get_with_retries_loop nt u (attempt # rest) tr =
     (case requests_get nt tr u of
        (tr1, RequestException) \<Rightarrow>
          get_with_retries_loop nt u rest (time_sleep tr1 (2 ^ attempt))
      | (tr1, Resp r) \<Rightarrow>
          if status_code r = 200 then
            (if history r \<noteq> [] then
               (case requests_get nt tr1 (url r) of
                  (tr2, RequestException) \<Rightarrow>
                    get_with_retries_loop nt u rest (time_sleep tr2 (2 ^ attempt))
                | (tr2, Resp r2) \<Rightarrow> (tr2, Some r2))
             else (tr1, Some r))
          else get_with_retries_loop nt u rest (time_sleep tr1 (2 ^ attempt)))"

definition get_with_retries :: "net \<Rightarrow> string \<Rightarrow> event list \<Rightarrow> event list \<times> response option" where
  "get_with_retries nt u tr = get_with_retries_loop nt u [0..<MAX_RETRIES] tr"

text \<open>\<^verbatim>\<open>_get_with_retries\<close> of langchain\_agent.py, lines 136-147: no second GET.\<close>

fun lc_get_with_retries_loop :: "net \<Rightarrow> string \<Rightarrow> nat list \<Rightarrow> event list \<Rightarrow> event list \<times> response option" where
  "lc_get_with_retries_loop nt u [] tr = (tr, None)"
| "lc_get_with_retries_loop nt u (attempt # rest) tr =
     (case requests_get nt tr u of
        (tr1, RequestException) \<Rightarrow>
          lc_get_with_retries_loop nt u rest (time_sleep tr1 (2 ^ attempt))
      | (tr1, Resp r) \<Rightarrow>
          if status_code r = 200 then (tr1, Some r)
          else lc_get_with_retries_loop nt u rest (time_sleep tr1 (2 ^ attempt)))"

definition lc_get_with_retries :: "net \<Rightarrow> string \<Rightarrow> event list \<Rightarrow> event list \<times> response option" where
  "lc_get_with_retries nt u tr = lc_get_with_retries_loop nt u [0..<MAX_RETRIES] tr"

text \<open>
  \<^verbatim>\<open>if not response\<close>: \<^verbatim>\<open>None\<close> is false, and a
  \<^verbatim>\<open>requests.Response\<close> is false when its status is a client or server error
  (400 to 599).
\<close>

definition response_ok :: "response \<Rightarrow> bool" where
  "response_ok r = (\<not> (400 \<le> status_code r \<and> status_code r < 600))"

fun not_response :: "response option \<Rightarrow> bool" where
  "not_response None = True"
| "not_response (Some r) = (\<not> response_ok r)"

section \<open>site\_scraper.py: career pages\<close>

text \<open>
  The HTML parser and \<^verbatim>\<open>urllib.parse.urljoin\<close> are libraries: \<open>a_hrefs\<close> gives
  the \<^verbatim>\<open>href\<close> of every \<^verbatim>\<open>a\<close> element of a document that has one, in
  document order; \<open>urljoin\<close> resolves a reference against a base URL, or raises
  \<^verbatim>\<open>ValueError\<close> on a reference it cannot parse (such as \<^verbatim>\<open>//[\<close>). No
  function of this section catches that exception.
\<close>

record env =
  a_hrefs :: "string \<Rightarrow> string list"
  urljoin :: "string \<Rightarrow> string \<Rightarrow> error + string"

text \<open>
  \<^verbatim>\<open>re.search(r"k1|k2|...", s, re.IGNORECASE)\<close> for keywords without regular
  expression operators: some keyword occurs in \<open>s\<close>, the case of the ASCII letters ignored.
\<close>

definition re_search_ic :: "string list \<Rightarrow> string \<Rightarrow> bool" where
  "re_search_ic kws s = list_ex (\<lambda>kw. str_in (lower kw) (lower s)) kws"

definition career_keywords :: "string list" where
  "career_keywords = [''careers'', ''jobs'', ''join-our-team'', ''join-us'']"

definition build_absolute_url :: "env \<Rightarrow> string \<Rightarrow> string \<Rightarrow> error + string" where
  "build_absolute_url ev base_url relative_path =
     (if starts_with ''http'' relative_path then Inr relative_path
      else urljoin ev base_url relative_path)"

text \<open>Lines 55-58: the URL a link of the homepage stands for.\<close>

definition full_url_of :: "env \<Rightarrow> string \<Rightarrow> string \<Rightarrow> error + string" where
  "full_url_of ev company_url href =
     (if starts_with ''https'' href \<or> starts_with ''http'' href then Inr href
      else build_absolute_url ev company_url href)"

text \<open>
  Lines 51-62: the loop over the links, with the list \<open>careers_pages\<close> built so far. An
  exception of the resolution leaves the loop and the function.
\<close>

fun careers_loop :: "env \<Rightarrow> string \<Rightarrow> string list \<Rightarrow> string list \<Rightarrow> error + string list" where
  "careers_loop ev company_url [] careers_pages = Inr careers_pages"
| "careers_loop ev company_url (href # links) careers_pages =
     (case full_url_of ev company_url href of
        Inl e \<Rightarrow> Inl e
      | Inr full_url \<Rightarrow>
          careers_loop ev company_url links
            (if re_search_ic career_keywords full_url then
               (if full_url \<notin> set careers_pages then careers_pages @ [full_url] else careers_pages)
             else careers_pages))"

definition find_careers_pages :: "env \<Rightarrow> net \<Rightarrow> string \<Rightarrow> error + string list" where
  "find_careers_pages ev nt company_url =
     (let response = snd (get_with_retries nt company_url []) in
      if not_response response then Inr [company_url]
      else
        (case careers_loop ev company_url (a_hrefs ev (body_text (the response))) [] of
           Inl e \<Rightarrow> Inl e
         | Inr careers_pages \<Rightarrow>
             Inr (if careers_pages \<noteq> [] then careers_pages else [company_url])))"

text \<open>\<^verbatim>\<open>find_careers_pages\<close> of langchain\_agent.py, lines 79-91.\<close>

definition lc_career_keywords :: "string list" where
  "lc_career_keywords = [''careers'', ''jobs'', ''join-us'']"

fun lc_careers_loop :: "env \<Rightarrow> string \<Rightarrow> string list \<Rightarrow> string list \<Rightarrow> error + string list" where
  "lc_careers_loop ev company_url [] careers_pages = Inr careers_pages"
| "lc_careers_loop ev company_url (href # links) careers_pages =
     (case (if starts_with ''http'' href then Inr href else urljoin ev company_url href) of
        Inl e \<Rightarrow> Inl e
      | Inr full_url \<Rightarrow>
          lc_careers_loop ev company_url links
            (if re_search_ic lc_career_keywords full_url then careers_pages @ [full_url]
             else careers_pages))"

definition lc_find_careers_pages :: "env \<Rightarrow> net \<Rightarrow> string \<Rightarrow> error + string list" where
  "lc_find_careers_pages ev nt company_url =
     (let response = snd (lc_get_with_retries nt company_url []) in
      if not_response response then Inr [company_url]
      else
        (case lc_careers_loop ev company_url (a_hrefs ev (body_text (the response))) [] of
           Inl e \<Rightarrow> Inl e
         | Inr careers_pages \<Rightarrow>
             Inr (if careers_pages \<noteq> [] then careers_pages else [company_url])))"




section \<open>site\_scraper.py: the extraction cascade\<close>







section \<open>site\_scraper.py: the rendered strategy\<close>

text \<open>
  The headless browser, from \<^verbatim>\<open>page.goto\<close> on. \<open>'p\<close> is the state of the page.
  Every operation may raise. \<open>wait_for_body\<close> is
  \<^verbatim>\<open>page.wait_for_selector("body")\<close> (\<open>None\<close>: no exception); \<open>main_frame\<close> and
  \<open>other_frames\<close> give the HTML content of the main frame and of the frames after it;
  \<open>select_jobs\<close> gives the text of each element the CSS selection finds in a content;
  \<open>query_next\<close> tells whether a next-page control is found, and \<open>click_next\<close> is the
  click on it and the wait that follows, giving the new state of the page.
\<close>

record 'p browser =
  goto :: "string \<Rightarrow> error + 'p"
  wait_for_body :: "'p \<Rightarrow> error option"
  main_frame :: "'p \<Rightarrow> error + string"
  other_frames :: "'p \<Rightarrow> (error + string) list"
  select_jobs :: "string \<Rightarrow> string list"
  query_next :: "'p \<Rightarrow> error + bool"
  click_next :: "'p \<Rightarrow> error + 'p"

text \<open>Lines 180-191: the elements of the current page, from the second frame when there is one.\<close>

definition page_job_elems :: "'p browser \<Rightarrow> 'p \<Rightarrow> error + string list" where
  "page_job_elems b p =
     (case wait_for_body b p of
        Some e \<Rightarrow> Inl e
      | None \<Rightarrow>
          (case (if other_frames b p \<noteq> [] then hd (other_frames b p) else main_frame b p) of
             Inl e \<Rightarrow> Inl e
           | Inr content \<Rightarrow> Inr (select_jobs b content)))"

text \<open>Lines 204-209: \<open>Inr None\<close> when no next-page control is found.\<close>

definition next_page :: "'p browser \<Rightarrow> 'p \<Rightarrow> error + 'p option" where
  "next_page b p =
     (case query_next b p of
        Inl e \<Rightarrow> Inl e
      | Inr found \<Rightarrow>
          if found then (case click_next b p of Inl e \<Rightarrow> Inl e | Inr p' \<Rightarrow> Inr (Some p'))
          else Inr None)"

text \<open>Lines 196-199.\<close>

fun extract_all :: "string \<Rightarrow> string \<Rightarrow> string list \<Rightarrow> job list \<Rightarrow> job list" where
  "extract_all company_url u [] jobs = jobs"
| "extract_all company_url u (elem # elems) jobs =
     extract_all company_url u elems
       (case extract_job_data (Some elem) company_url u of
          None \<Rightarrow> jobs
        | Some job_data \<Rightarrow> jobs @ [job_data])"

text \<open>
  Lines 179-209: the pagination loop, with the number of iterations left. The result is
  the jobs collected and the page states on which an iteration ran, in order. Any
  exception ends the loop (line 211) and keeps the jobs collected so far.
\<close>

fun paginate :: "'p browser \<Rightarrow> string \<Rightarrow> string \<Rightarrow> nat \<Rightarrow> 'p \<Rightarrow> job list \<Rightarrow> job list \<times> 'p list" where
  "paginate b company_url u 0 p jobs = (jobs, [])"
| "paginate b company_url u (Suc n) p jobs =
     (case page_job_elems b p of
        Inl e \<Rightarrow> (jobs, [p])
      | Inr job_elems \<Rightarrow>
          if job_elems = [] then (jobs, [p])
          else
            let jobs' = extract_all company_url u job_elems jobs in
            (case next_page b p of
               Inl e \<Rightarrow> (jobs', [p])
             | Inr None \<Rightarrow> (jobs', [p])
             | Inr (Some p') \<Rightarrow>
                 (case paginate b company_url u n p' jobs' of (js, ps) \<Rightarrow> (js, p # ps))))"

text \<open>
  \<^verbatim>\<open>playwright_scrape(url, company_url, max_pages=3)\<close>:
  \<^verbatim>\<open>range(1, max_pages + 1)\<close> has \<open>nat max_pages\<close> elements (none when
  \<open>max_pages\<close> is not positive).
\<close>

definition playwright_run :: "'p browser \<Rightarrow> string \<Rightarrow> string \<Rightarrow> int \<Rightarrow> job list \<times> 'p list" where
  "playwright_run b u company_url max_pages =
     (case goto b u of
        Inl e \<Rightarrow> ([], [])
      | Inr p \<Rightarrow> paginate b company_url u (nat max_pages) p [])"

definition playwright_scrape :: "'p browser \<Rightarrow> string \<Rightarrow> string \<Rightarrow> int \<Rightarrow> job list" where
  "playwright_scrape b u company_url max_pages = fst (playwright_run b u company_url max_pages)"



section \<open>aggregator.py\<close>

text \<open>
  \<^verbatim>\<open>asyncio.gather\<close> over the tasks, without \<^verbatim>\<open>return_exceptions\<close>: the results
  in the order of the tasks, or the exception of a task that raised, raised again where
  the gather is awaited. A task here runs to its end without suspending, so the tasks
  finish in the order of the list.
\<close>

fun gather :: "('c \<Rightarrow> error + job list) \<Rightarrow> 'c list \<Rightarrow> error + job list list" where
  "gather scrape_company_jobs [] = Inr []"
| "gather scrape_company_jobs (c # cs) =
     (case scrape_company_jobs c of
        Inl e \<Rightarrow> Inl e
      | Inr jobs \<Rightarrow>
          (case gather scrape_company_jobs cs of
             Inl e \<Rightarrow> Inl e
           | Inr rest \<Rightarrow> Inr (jobs # rest)))"

text \<open>Lines 30-38: the loop over the results; nothing in its body raises.\<close>

fun collect :: "(job list \<times> 'c) list \<Rightarrow> job list \<Rightarrow> job list" where
  "collect [] all_jobs = all_jobs"
| "collect ((job_posts, company_url) # rest) all_jobs =
     collect rest (if job_posts \<noteq> [] then all_jobs @ job_posts else all_jobs)"

definition run :: "('c \<Rightarrow> error + job list) \<Rightarrow> 'c list \<Rightarrow> error + job list" where
  "run scrape_company_jobs company_list =
     (case gather scrape_company_jobs company_list of
        Inl e \<Rightarrow> Inl e
      | Inr job_results \<Rightarrow> Inr (collect (zip job_results company_list) []))"

section \<open>Properties stated on the models\<close>

text \<open>An attempt of the fetcher fails when the GET raises or answers with a status other than 200.\<close>

fun attempt_fails :: "outcome \<Rightarrow> bool" where
  "attempt_fails RequestException = True"
| "attempt_fails (Resp r) = (status_code r \<noteq> 200)"








subsection \<open>Concrete networks\<close>

text \<open>An endpoint that answers every GET with status 500.\<close>

definition always_500 :: net where
  "always_500 k u = Resp \<lparr>status_code = 500, history = [], url = u, body_text = ''''\<rparr>"

text \<open>
  A homepage that redirects: the first GET ends, after a 302, on a page with status 200;
  every later GET is answered with status 500.
\<close>

definition redirect_net :: net where
  "redirect_net k u =
     (if k = 0 then
        Resp \<lparr>status_code = 200, history = [302], url = ''https://acme.example/home'', body_text = ''moved''\<rparr>
      else Resp \<lparr>status_code = 500, history = [], url = u, body_text = ''error''\<rparr>)"

text \<open>
  The career links as specified: every link resolved against the homepage (a link that
  starts with \<^verbatim>\<open>http\<close> is kept as it is), those kept whose resolved URL contains
  one of the four keywords, letter case ignored, in document order, a URL already kept not
  being added again. \<open>resolve_all\<close> resolves the links in order and raises at the first
  one that cannot be resolved.
\<close>

definition spec_keywords :: "string list" where
  "spec_keywords = [''careers'', ''jobs'', ''join-us'', ''join-our-team'']"

definition spec_resolve :: "env \<Rightarrow> string \<Rightarrow> string \<Rightarrow> error + string" where
  "spec_resolve ev homepage_url href =
     (if starts_with ''http'' href then Inr href else urljoin ev homepage_url href)"

fun resolve_all :: "env \<Rightarrow> string \<Rightarrow> string list \<Rightarrow> error + string list" where
  "resolve_all ev homepage_url [] = Inr []"
| "resolve_all ev homepage_url (href # links) =
     (case spec_resolve ev homepage_url href of
        Inl e \<Rightarrow> Inl e
      | Inr x \<Rightarrow>
          (case resolve_all ev homepage_url links of
             Inl e \<Rightarrow> Inl e
           | Inr xs \<Rightarrow> Inr (x # xs)))"

fun suppress_present :: "string list \<Rightarrow> string list \<Rightarrow> string list" where
  "suppress_present [] acc = acc"
| "suppress_present (x # xs) acc = suppress_present xs (if x \<in> set acc then acc else acc @ [x])"

definition spec_career_links :: "string list \<Rightarrow> string list" where
  "spec_career_links urls = suppress_present (filter (re_search_ic spec_keywords) urls) []"

subsection \<open>Concrete pages, scrapers and browsers\<close>

text \<open>
  Pages, named by their body: a homepage without career links, one that links twice to
  its careers page, one whose only career link is \<^verbatim>\<open>/join-our-team\<close>, one whose
  only link is the reference \<^verbatim>\<open>//[\<close> that \<^verbatim>\<open>urljoin\<close> refuses, and a
  careers hub that links to two job pages; and a network that serves a body with status
  200 to every GET. The stand-in for \<^verbatim>\<open>urljoin\<close> raises on \<^verbatim>\<open>//[\<close> and
  appends any other reference to the base.
\<close>

definition demo_env :: env where
  "demo_env = \<lparr>a_hrefs = (\<lambda>doc.
       if doc = ''plain'' then [''/about'', ''/contact'']
       else if doc = ''twice'' then [''/careers'', ''/about'', ''/careers'']
       else if doc = ''team'' then [''/join-our-team'']
       else if doc = ''malformed'' then [''//['']
       else if doc = ''hub'' then [''/jobs-a'', ''/about'', ''/jobs-b'']
       else []),
     urljoin = (\<lambda>base ref. if ref = ''//['' then Inl ValueError else Inr (base @ ref))\<rparr>"

definition serving :: "string \<Rightarrow> net" where
  "serving doc k u = Resp \<lparr>status_code = 200, history = [], url = u, body_text = doc\<rparr>"




section \<open>The filter\<close>

lemma filter_jobs_empty_config: "filter_jobs jobs [] = Inr jobs"
  by (simp add: filter_jobs_def)

lemma filter_loop_no_titles:
  "filter_loop (CList []) lo hi ls jts jobs acc = Inr ys \<Longrightarrow> ys = acc"
  by (induction jobs arbitrary: acc) (auto simp: job_passes_def title_ok_def split: sum.splits)

lemma filter_jobs_no_titles:
  "filter_config \<noteq> [] \<Longrightarrow> dict_get filter_config ''job_titles'' (CList []) = CList [] \<Longrightarrow>
   filter_jobs jobs filter_config = Inr ys \<Longrightarrow> ys = []"
  by (auto simp: filter_jobs_def Let_def dest: filter_loop_no_titles)

text \<open>
  C1. Specified: a job passes the filter exactly when the four dimensions hold, an empty or
  absent field being no constraint; with a non-empty configuration whose
  \<^verbatim>\<open>job_titles\<close> is empty or absent every job passes the title dimension.
  The code computes \<^verbatim>\<open>title_ok\<close> as an \<^verbatim>\<open>any\<close> over the titles with
  no guard for the empty list (the location and job type dimensions have one), so without
  titles the flag is false: a job that matches the only configured field, the location, is
  rejected.
\<close>

theorem filter_jobs_absent_titles_rejects: "filter_jobs [[(''title'', PStr ''Engineer''), (''location'', PStr ''Remote'')]]
       [(''locations'', CList [''remote''])] = Inr []"
  by code_simp

text \<open>
  C4. Specified: with every field of the configuration empty or absent, the filter returns
  the jobs unchanged. An empty configuration does (\<open>filter_jobs_empty_config\<close>); a
  configuration whose fields are all present and empty is not an empty dict, the loop
  runs, and the unguarded title test rejects every job.
\<close>

theorem filter_jobs_empty_fields_not_identity: "filter_jobs [[(''title'', PStr ''Engineer'')]]
       [(''job_titles'', CList []), (''locations'', CList []), (''job_type'', CList [])] = Inr []"
  by code_simp

text \<open>
  C10. The filter is not total on jobs without the optional fields: on a job as
  \<^verbatim>\<open>_extract_job_data\<close> builds it (company, title and url only), a configuration
  with a non-empty \<^verbatim>\<open>locations\<close> list raises \<^verbatim>\<open>KeyError\<close> on
  \<^verbatim>\<open>location\<close>, and one with a non-empty \<^verbatim>\<open>job_type\<close> list raises it on
  \<^verbatim>\<open>job_type\<close>, whatever jobs follow.
\<close>

theorem filter_jobs_missing_key_raises:
  assumes "extract_job_data elem company_url source_url = Some jb" and "xs \<noteq> []"
  shows "filter_jobs (jb # jobs) [(''locations'', CList xs)] = Inl (KeyError ''location'')
       \<and> filter_jobs (jb # jobs) [(''job_type'', CList xs)] = Inl (KeyError ''job_type'')"
proof -
  from assms(1) obtain t where jb: "jb = [(''company'', PStr company_url), (''title'', PStr t), (''url'', PStr source_url)]"
    by (auto simp: extract_job_data_def split: option.splits if_splits)
  from assms(2) obtain y ys where xs: "xs = y # ys" by (cases xs) auto
  show ?thesis
    by (simp add: jb xs filter_jobs_def dict_get_def job_passes_def title_ok_def guarded_ok_def)
qed

theorem filter_jobs_missing_key_raises_witness:
  "extract_job_data (Some ''Data Engineer'') ''https://acme.example'' ''https://acme.example/careers''
     = Some [(''company'', PStr ''https://acme.example''), (''title'', PStr ''Data Engineer''), (''url'', PStr ''https://acme.example/careers'')]
   \<and> [''remote''] \<noteq> []
   \<and> filter_jobs [[(''company'', PStr ''https://acme.example''), (''title'', PStr ''Data Engineer''), (''url'', PStr ''https://acme.example/careers'')]] [(''locations'', CList [''remote''])] = Inl (KeyError ''location'')
   \<and> filter_jobs [[(''company'', PStr ''https://acme.example''), (''title'', PStr ''Data Engineer''), (''url'', PStr ''https://acme.example/careers'')]] [(''job_type'', CList [''remote''])] = Inl (KeyError ''job_type'')"
proof -
  have h1: "extract_job_data (Some ''Data Engineer'') ''https://acme.example'' ''https://acme.example/careers''
     = Some [(''company'', PStr ''https://acme.example''), (''title'', PStr ''Data Engineer''), (''url'', PStr ''https://acme.example/careers'')]"
    by (simp add: extract_job_data_def)
  have h2: "[''remote''] \<noteq> []" by simp
  from filter_jobs_missing_key_raises [OF h1 h2, of "[]"] h1 h2 show ?thesis by blast
qed

section \<open>The aggregator\<close>

lemma gather_all_ok: "(\<forall>c \<in> set cs. \<exists>js. f c = Inr js) \<Longrightarrow> gather f cs = Inr (map (\<lambda>c. projr (f c)) cs)"
  by (induction cs) auto

lemma collect_concat: "length rs = length cs \<Longrightarrow> collect (zip rs cs) acc = acc @ concat rs"
  by (induction rs cs arbitrary: acc rule: list_induct2) auto

lemma run_all_ok: "(\<forall>c \<in> set cs. \<exists>js. f c = Inr js) \<Longrightarrow> run f cs = Inr (concat (map (\<lambda>c. projr (f c)) cs))"
  by (simp add: run_def gather_all_ok collect_concat)

lemma gather_raises: "c \<in> set cs \<Longrightarrow> f c = Inl e \<Longrightarrow> \<exists>e'. gather f cs = Inl e'"
  by (induction cs) (auto split: sum.splits)

lemma run_raises: "c \<in> set cs \<Longrightarrow> f c = Inl e \<Longrightarrow> \<exists>e'. run f cs = Inl e'"
  using gather_raises[of c cs f e] by (auto simp: run_def)

text \<open>
  C2. Specified: when the extraction of one company raises, the exception is caught, the
  company counts for no job and the run returns the jobs of the others. The
  \<^verbatim>\<open>try\<close> of \<^verbatim>\<open>run\<close> is around the handling of a result; the exception
  comes out of the gather before the loop starts, so the run raises it: with three
  companies of which the second fails, no job is returned.
\<close>

theorem run_aborts_on_failing_company: "run (\<lambda>c::nat. if c = 2 then Inl (PyException ''timeout'') else Inr [[(''title'', PStr ''Engineer'')]]) [1, 2, 3]
   = Inl (PyException ''timeout'')"
  by (simp add: run_def)

section \<open>The retrying fetch\<close>

lemma range3: "[0..<MAX_RETRIES] = [0, 1, 2]"
  by (simp add: MAX_RETRIES_def upt_rec)

lemma gets_all_fail:
  assumes "\<forall>k. attempt_fails (nt k u)"
  shows "get_with_retries_loop nt u (a # rest) tr = get_with_retries_loop nt u rest (tr @ [Get u, Sleep (2 ^ a)])"
    and "lc_get_with_retries_loop nt u (a # rest) tr = lc_get_with_retries_loop nt u rest (tr @ [Get u, Sleep (2 ^ a)])"
  using assms[rule_format, of "count_gets tr"]
  by (cases "nt (count_gets tr) u"; simp add: requests_get_def time_sleep_def)+

lemma all_fail_trace:
  assumes "\<forall>k. attempt_fails (nt k u)"
  shows "get_with_retries nt u [] = ([Get u, Sleep 1, Get u, Sleep 2, Get u, Sleep 4], None)"
    and "lc_get_with_retries nt u [] = ([Get u, Sleep 1, Get u, Sleep 2, Get u, Sleep 4], None)"
  by (simp_all only: get_with_retries_def lc_get_with_retries_def range3 gets_all_fail[of nt u, OF assms] get_with_retries_loop.simps(1) lc_get_with_retries_loop.simps(1)) simp_all

text \<open>
  C5. When every GET to a URL fails (a status other than 200; a network error counts as
  well), both fetchers issue exactly \<open>MAX_RETRIES\<close> = 3 GETs, return \<open>None\<close> and
  sleep \<open>2 ^ attempt\<close> after each attempt, a non-decreasing sequence.
\<close>

theorem get_with_retries_exhausts:
  assumes "\<forall>k. attempt_fails (nt k u)"
  shows "count_gets (fst (get_with_retries nt u [])) = MAX_RETRIES
       \<and> snd (get_with_retries nt u []) = None
       \<and> sleeps (fst (get_with_retries nt u [])) = map (\<lambda>attempt. 2 ^ attempt) [0..<MAX_RETRIES]
       \<and> sorted (sleeps (fst (get_with_retries nt u [])))
       \<and> count_gets (fst (lc_get_with_retries nt u [])) = MAX_RETRIES
       \<and> snd (lc_get_with_retries nt u []) = None
       \<and> sleeps (fst (lc_get_with_retries nt u [])) = map (\<lambda>attempt. 2 ^ attempt) [0..<MAX_RETRIES]
       \<and> sorted (sleeps (fst (lc_get_with_retries nt u [])))"
  by (simp add: all_fail_trace[of nt u, OF assms] range3 count_gets_def) (simp add: MAX_RETRIES_def)

theorem get_with_retries_exhausts_witness:
  "(\<forall>k. attempt_fails (always_500 k ''https://acme.example''))
   \<and> count_gets (fst (get_with_retries always_500 ''https://acme.example'' [])) = 3
   \<and> snd (get_with_retries always_500 ''https://acme.example'' []) = None
   \<and> sleeps (fst (get_with_retries always_500 ''https://acme.example'' [])) = [1, 2, 4]
   \<and> count_gets (fst (lc_get_with_retries always_500 ''https://acme.example'' [])) = 3
   \<and> snd (lc_get_with_retries always_500 ''https://acme.example'' []) = None
   \<and> sleeps (fst (lc_get_with_retries always_500 ''https://acme.example'' [])) = [1, 2, 4]"
proof -
  have h: "\<forall>k. attempt_fails (always_500 k ''https://acme.example'')"
    by (simp add: always_500_def)
  from get_with_retries_exhausts [of always_500 "''https://acme.example''"] h show ?thesis by (simp add: range3) (simp add: MAX_RETRIES_def)
qed

text \<open>
  C6. Specified: a document is returned only for a fetch with status 200, and after a
  redirect the final URL is fetched again, so that no returned document has another
  status. The response of the second GET is returned without a look at its status: when
  the second GET is answered with 500, that response is the result.
\<close>

theorem get_with_retries_returns_unchecked_refetch: "get_with_retries redirect_net ''https://acme.example'' []
   = ([Get ''https://acme.example'', Get ''https://acme.example/home''],
      Some \<lparr>status_code = 500, history = [], url = ''https://acme.example/home'', body_text = ''error''\<rparr>)"
  by (simp add: get_with_retries_def MAX_RETRIES_def redirect_net_def requests_get_def count_gets_def upt_rec)

section \<open>The cascade\<close>



















section \<open>The rendered strategy\<close>







section \<open>Career pages\<close>

lemma starts_with_append: "starts_with (xs @ ys) s \<Longrightarrow> starts_with xs s"
  by (induction xs s rule: starts_with.induct) auto

lemma full_url_of_spec: "full_url_of ev u href = spec_resolve ev u href"
  using starts_with_append[of "''http''" "''s''" href]
  by (auto simp: full_url_of_def spec_resolve_def build_absolute_url_def)

lemma re_search_keywords: "re_search_ic career_keywords s = re_search_ic spec_keywords s"
  by (auto simp: re_search_ic_def career_keywords_def spec_keywords_def)

lemma careers_loop_spec:
  "careers_loop ev u hrefs acc =
     (case resolve_all ev u hrefs of
        Inl e \<Rightarrow> Inl e
      | Inr urls \<Rightarrow> Inr (suppress_present (filter (re_search_ic spec_keywords) urls) acc))"
  by (induction hrefs arbitrary: acc)
     (simp_all add: full_url_of_spec re_search_keywords split: sum.splits)

lemma lc_careers_loop_spec:
  "lc_careers_loop ev u hrefs acc =
     (case resolve_all ev u hrefs of
        Inl e \<Rightarrow> Inl e
      | Inr urls \<Rightarrow> Inr (acc @ filter (re_search_ic lc_career_keywords) urls))"
  by (induction hrefs arbitrary: acc)
     (simp_all add: spec_resolve_def split: sum.splits)

lemma find_careers_pages_spec:
  "snd (get_with_retries nt u []) = Some r \<Longrightarrow> response_ok r \<Longrightarrow>
   find_careers_pages ev nt u =
     (case resolve_all ev u (a_hrefs ev (body_text r)) of
        Inl e \<Rightarrow> Inl e
      | Inr urls \<Rightarrow> Inr (if spec_career_links urls \<noteq> [] then spec_career_links urls else [u]))"
  by (simp add: find_careers_pages_def spec_career_links_def careers_loop_spec split: sum.splits)

lemma lc_find_careers_pages_spec:
  "snd (lc_get_with_retries nt u []) = Some r \<Longrightarrow> response_ok r \<Longrightarrow>
   lc_find_careers_pages ev nt u =
     (case resolve_all ev u (a_hrefs ev (body_text r)) of
        Inl e \<Rightarrow> Inl e
      | Inr urls \<Rightarrow>
          Inr (if filter (re_search_ic lc_career_keywords) urls \<noteq> []
               then filter (re_search_ic lc_career_keywords) urls else [u]))"
  by (simp add: lc_find_careers_pages_def lc_careers_loop_spec split: sum.splits)

lemma filter_none: "\<forall>x \<in> set xs. \<not> P x \<Longrightarrow> filter P xs = []"
  by (induction xs) auto

text \<open>
  C8. Specified: the list returned is never empty, and it is the homepage alone when the
  fetch fails or no link matches. Neither version catches the \<^verbatim>\<open>ValueError\<close> of
  \<^verbatim>\<open>urljoin\<close>: on a homepage whose only link is \<^verbatim>\<open>//[\<close>, which holds no
  keyword, both raise instead of returning the homepage.
\<close>

theorem find_careers_pages_raises_on_unparsable_link:
  "find_careers_pages demo_env (serving ''malformed'') ''https://acme.example'' = Inl ValueError
 \<and> lc_find_careers_pages demo_env (serving ''malformed'') ''https://acme.example'' = Inl ValueError
 \<and> a_hrefs demo_env ''malformed'' = [''//['']
 \<and> \<not> re_search_ic career_keywords ''//[''"
  by code_simp

text \<open>
  C8, as the code has it. Both versions of \<^verbatim>\<open>find_careers_pages\<close>: a list that
  is returned is never empty; when the fetch of the homepage gives no usable response the
  result is the homepage URL alone; when every link of the homepage resolves and no
  resolved URL matches a keyword the result is the homepage URL alone; and when the
  resolution of a link raises, the call raises that exception.
\<close>

theorem find_careers_pages_fallback:
  "(\<forall>xs. find_careers_pages ev nt u = Inr xs \<longrightarrow> xs \<noteq> [])
 \<and> (\<forall>xs. lc_find_careers_pages ev nt u = Inr xs \<longrightarrow> xs \<noteq> [])
 \<and> (not_response (snd (get_with_retries nt u [])) \<longrightarrow> find_careers_pages ev nt u = Inr [u])
 \<and> (not_response (snd (lc_get_with_retries nt u [])) \<longrightarrow> lc_find_careers_pages ev nt u = Inr [u])
 \<and> (\<forall>r urls. snd (get_with_retries nt u []) = Some r
        \<and> resolve_all ev u (a_hrefs ev (body_text r)) = Inr urls
        \<and> (\<forall>x \<in> set urls. \<not> re_search_ic career_keywords x)
      \<longrightarrow> find_careers_pages ev nt u = Inr [u])
 \<and> (\<forall>r urls. snd (lc_get_with_retries nt u []) = Some r
        \<and> resolve_all ev u (a_hrefs ev (body_text r)) = Inr urls
        \<and> (\<forall>x \<in> set urls. \<not> re_search_ic lc_career_keywords x)
      \<longrightarrow> lc_find_careers_pages ev nt u = Inr [u])
 \<and> (\<forall>r e. snd (get_with_retries nt u []) = Some r \<and> response_ok r
        \<and> resolve_all ev u (a_hrefs ev (body_text r)) = Inl e
      \<longrightarrow> find_careers_pages ev nt u = Inl e)
 \<and> (\<forall>r e. snd (lc_get_with_retries nt u []) = Some r \<and> response_ok r
        \<and> resolve_all ev u (a_hrefs ev (body_text r)) = Inl e
      \<longrightarrow> lc_find_careers_pages ev nt u = Inl e)"
proof -
  have a: "\<forall>xs. find_careers_pages ev nt u = Inr xs \<longrightarrow> xs \<noteq> []"
    by (auto simp: find_careers_pages_def Let_def split: sum.splits if_splits)
  have b: "\<forall>xs. lc_find_careers_pages ev nt u = Inr xs \<longrightarrow> xs \<noteq> []"
    by (auto simp: lc_find_careers_pages_def Let_def split: sum.splits if_splits)
  have c: "not_response (snd (get_with_retries nt u [])) \<longrightarrow> find_careers_pages ev nt u = Inr [u]"
    by (simp add: find_careers_pages_def)
  have d: "not_response (snd (lc_get_with_retries nt u [])) \<longrightarrow> lc_find_careers_pages ev nt u = Inr [u]"
    by (simp add: lc_find_careers_pages_def)
  have e: "find_careers_pages ev nt u = Inr [u]"
    if "snd (get_with_retries nt u []) = Some r"
       "resolve_all ev u (a_hrefs ev (body_text r)) = Inr urls"
       "\<forall>x \<in> set urls. \<not> re_search_ic career_keywords x" for r urls
    using that filter_none[of urls "re_search_ic spec_keywords"]
    by (cases "response_ok r")
       (simp_all add: find_careers_pages_def careers_loop_spec re_search_keywords)
  have f: "lc_find_careers_pages ev nt u = Inr [u]"
    if "snd (lc_get_with_retries nt u []) = Some r"
       "resolve_all ev u (a_hrefs ev (body_text r)) = Inr urls"
       "\<forall>x \<in> set urls. \<not> re_search_ic lc_career_keywords x" for r urls
    using that filter_none[of urls "re_search_ic lc_career_keywords"]
    by (cases "response_ok r")
       (simp_all add: lc_find_careers_pages_def lc_careers_loop_spec)
  have g: "find_careers_pages ev nt u = Inl e"
    if "snd (get_with_retries nt u []) = Some r" "response_ok r"
       "resolve_all ev u (a_hrefs ev (body_text r)) = Inl e" for r e
    using that by (simp add: find_careers_pages_spec)
  have h: "lc_find_careers_pages ev nt u = Inl e"
    if "snd (lc_get_with_retries nt u []) = Some r" "response_ok r"
       "resolve_all ev u (a_hrefs ev (body_text r)) = Inl e" for r e
    using that by (simp add: lc_find_careers_pages_spec)
  from a b c d e f g h show ?thesis by blast
qed

theorem find_careers_pages_fallback_witness:
  "find_careers_pages demo_env (serving ''twice'') ''https://acme.example''
     = Inr [''https://acme.example/careers'']
 \<and> [''https://acme.example/careers''] \<noteq> []
 \<and> not_response (snd (get_with_retries always_500 ''https://acme.example'' []))
 \<and> not_response (snd (lc_get_with_retries always_500 ''https://acme.example'' []))
 \<and> find_careers_pages demo_env always_500 ''https://acme.example'' = Inr [''https://acme.example'']
 \<and> lc_find_careers_pages demo_env always_500 ''https://acme.example'' = Inr [''https://acme.example'']
 \<and> resolve_all demo_env ''https://acme.example'' (a_hrefs demo_env ''plain'')
     = Inr [''https://acme.example/about'', ''https://acme.example/contact'']
 \<and> \<not> re_search_ic career_keywords ''https://acme.example/about''
 \<and> \<not> re_search_ic career_keywords ''https://acme.example/contact''
 \<and> \<not> re_search_ic lc_career_keywords ''https://acme.example/about''
 \<and> \<not> re_search_ic lc_career_keywords ''https://acme.example/contact''
 \<and> find_careers_pages demo_env (serving ''plain'') ''https://acme.example'' = Inr [''https://acme.example'']
 \<and> lc_find_careers_pages demo_env (serving ''plain'') ''https://acme.example'' = Inr [''https://acme.example'']
 \<and> resolve_all demo_env ''https://acme.example'' (a_hrefs demo_env ''malformed'') = Inl ValueError
 \<and> find_careers_pages demo_env (serving ''malformed'') ''https://acme.example'' = Inl ValueError
 \<and> lc_find_careers_pages demo_env (serving ''malformed'') ''https://acme.example'' = Inl ValueError"
proof -
  let ?u = "''https://acme.example''"
  let ?plain = "\<lparr>status_code = 200, history = [], url = ?u, body_text = ''plain''\<rparr>"
  let ?bad = "\<lparr>status_code = 200, history = [], url = ?u, body_text = ''malformed''\<rparr>"
  let ?urls = "[''https://acme.example/about'', ''https://acme.example/contact'']"
  have tw: "find_careers_pages demo_env (serving ''twice'') ?u = Inr [''https://acme.example/careers'']"
    by code_simp
  have a: "not_response (snd (get_with_retries always_500 ?u []))" by code_simp
  have b: "not_response (snd (lc_get_with_retries always_500 ?u []))" by code_simp
  have c: "snd (get_with_retries (serving ''plain'') ?u []) = Some ?plain" by code_simp
  have d: "snd (lc_get_with_retries (serving ''plain'') ?u []) = Some ?plain" by code_simp
  have r: "resolve_all demo_env ?u (a_hrefs demo_env (body_text ?plain)) = Inr ?urls" by code_simp
  have e: "\<forall>x \<in> set ?urls. \<not> re_search_ic career_keywords x" by code_simp
  have f: "\<forall>x \<in> set ?urls. \<not> re_search_ic lc_career_keywords x" by code_simp
  have g: "snd (get_with_retries (serving ''malformed'') ?u []) = Some ?bad" by code_simp
  have h: "snd (lc_get_with_retries (serving ''malformed'') ?u []) = Some ?bad" by code_simp
  have ok: "response_ok ?bad" by (simp add: response_ok_def)
  have rb: "resolve_all demo_env ?u (a_hrefs demo_env (body_text ?bad)) = Inl ValueError" by code_simp
  note t500 = find_careers_pages_fallback [of demo_env always_500 ?u]
  note tplain = find_careers_pages_fallback [of demo_env "serving ''plain''" ?u]
  note tbad = find_careers_pages_fallback [of demo_env "serving ''malformed''" ?u]
  note ttwice = find_careers_pages_fallback [of demo_env "serving ''twice''" ?u]
  from ttwice tw have s0: "[''https://acme.example/careers''] \<noteq> []" by blast
  from t500 a b have s1: "find_careers_pages demo_env always_500 ?u = Inr [?u]
      \<and> lc_find_careers_pages demo_env always_500 ?u = Inr [?u]" by blast
  from tplain c d r e f have s2: "find_careers_pages demo_env (serving ''plain'') ?u = Inr [?u]
      \<and> lc_find_careers_pages demo_env (serving ''plain'') ?u = Inr [?u]" by blast
  from tbad g h ok rb have s3: "find_careers_pages demo_env (serving ''malformed'') ?u = Inl ValueError
      \<and> lc_find_careers_pages demo_env (serving ''malformed'') ?u = Inl ValueError" by blast
  from r rb have r': "resolve_all demo_env ?u (a_hrefs demo_env ''plain'') = Inr ?urls
      \<and> resolve_all demo_env ?u (a_hrefs demo_env ''malformed'') = Inl ValueError" by simp
  from e f have m: "\<not> re_search_ic career_keywords ''https://acme.example/about''
      \<and> \<not> re_search_ic career_keywords ''https://acme.example/contact''
      \<and> \<not> re_search_ic lc_career_keywords ''https://acme.example/about''
      \<and> \<not> re_search_ic lc_career_keywords ''https://acme.example/contact''" by simp
  from tw s0 a b s1 r' m s2 s3 show ?thesis by blast
qed

text \<open>
  C9. Specified: every link is resolved, those that match one of the four keywords
  \<^verbatim>\<open>careers\<close>, \<^verbatim>\<open>jobs\<close>, \<^verbatim>\<open>join-us\<close>, \<^verbatim>\<open>join-our-team\<close> are
  kept in document order, and a URL already kept is not added again. The version of
  site\_scraper.py does that (\<open>find_careers_pages_spec\<close>). The version of
  langchain\_agent.py searches three keywords and appends without looking at the list: a
  homepage that links twice to its careers page gives the URL twice, and a homepage whose
  only career link is \<^verbatim>\<open>/join-our-team\<close> gives the homepage itself.
\<close>

theorem lc_find_careers_pages_duplicates_and_keyword:
  "lc_find_careers_pages demo_env (serving ''twice'') ''https://acme.example''
     = Inr [''https://acme.example/careers'', ''https://acme.example/careers'']
 \<and> lc_find_careers_pages demo_env (serving ''team'') ''https://acme.example''
     = Inr [''https://acme.example'']"
  by code_simp

lemma find_careers_pages_on_demo_pages:
  "find_careers_pages demo_env (serving ''twice'') ''https://acme.example''
     = Inr [''https://acme.example/careers'']
 \<and> find_careers_pages demo_env (serving ''team'') ''https://acme.example''
     = Inr [''https://acme.example/join-our-team'']"
  by code_simp

end
